theory Spec2Isabelle
  imports Main "HOL-Library.Multiset"
begin

section \<open>Entity model (src/data/models.py)\<close>

text \<open>
  A calendar date is its proleptic Gregorian ordinal (what \<open>date.toordinal()\<close> returns), so
  \<open>(d1 - d2).days\<close> is integer subtraction and date comparison is integer comparison.
  Every property that reads \<open>date.today()\<close> takes the current date as its first argument.
  A \<open>datetime\<close> is kept as a number as well; no function of the engine reads one.
\<close>

type_synonym date = int
type_synonym datetime = int

datatype ProjectStatus = PLANEJAMENTO | EM_ANDAMENTO | CONCLUIDO | PARALISADO | CANCELADO

datatype RiskLevel = BAIXO | MEDIO | ALTO | CRITICO

record Milestone =
  m_id :: string
  title :: string
  expected_date :: date
  actual_date :: "date option"
  m_status :: string

record ProjectUpdate =
  u_id :: string
  project_id :: string
  timestamp :: datetime
  source :: string
  u_title :: string
  u_description :: string
  category :: string
  url :: "string option"
  attachments :: "string list"

record Project =
  p_id :: string
  name :: string
  description :: "string option"
  area_responsavel :: string
  responsible_team :: "string list"
  status :: ProjectStatus
  risk_level :: RiskLevel
  start_date :: date
  expected_end_date :: date
  milestones :: "Milestone list"
  created_at :: datetime
  last_updated :: datetime
  tags :: "string list"
  recent_updates :: "ProjectUpdate list"

text \<open>
  \<open>Milestone.is_overdue\<close> and \<open>Milestone.days_until\<close>. A \<open>date\<close> object is always truthy,
  so \<open>if self.actual_date\<close> tests that the optional field is present.
\<close>

definition is_overdue :: "date \<Rightarrow> Milestone \<Rightarrow> bool" where
  "is_overdue today m =
     (if actual_date m \<noteq> None \<or> m_status m = ''concluido'' then False
      else today > expected_date m)"

definition days_until :: "date \<Rightarrow> Milestone \<Rightarrow> int option" where
  "days_until today m =
     (if actual_date m \<noteq> None \<or> m_status m = ''concluido'' then None
      else Some (expected_date m - today))"

text \<open>\<open>Project.days_until_deadline\<close> and \<open>Project.is_at_risk\<close>.\<close>

definition days_until_deadline :: "date \<Rightarrow> Project \<Rightarrow> int option" where
  "days_until_deadline today p =
     (if status p = CONCLUIDO then None
      else Some (expected_end_date p - today))"

definition is_at_risk :: "date \<Rightarrow> Project \<Rightarrow> bool" where
  "is_at_risk today p =
     (case days_until_deadline today p of
        Some d \<Rightarrow> if d \<le> 15 then True else list_ex (is_overdue today) (milestones p)
      | None \<Rightarrow> list_ex (is_overdue today) (milestones p))"

text \<open>
  Exceptions the modelled code can raise. \<open>KeyError\<close> carries the missing key,
  \<open>ValueError\<close> the message of the validator. Texts of the source are written here
  without their accents.
\<close>

datatype error = KeyError string | ValueError string

text \<open>
  The field validator \<open>Project.end_must_be_after_start\<close>: \<open>v\<close> is the candidate
  \<open>expected_end_date\<close>, \<open>data\<close> the fields validated before it
  (only \<open>start_date\<close> is read).
\<close>

definition end_must_be_after_start :: "date \<Rightarrow> (string \<rightharpoonup> date) \<Rightarrow> error + date" where
  "end_must_be_after_start v data =
     (case data ''start_date'' of
        Some s \<Rightarrow> if v < s then Inl (ValueError ''Data de termino deve ser apos data de inicio'')
                  else Inr v
      | None \<Rightarrow> Inr v)"

text \<open>
  Construction of a \<open>Project\<close> from field values that already have the declared types:
  pydantic validates the fields in declaration order, so the validator of
  \<open>expected_end_date\<close> sees \<open>start_date\<close> in \<open>data\<close>; construction fails when
  the validator raises, and otherwise stores the value the validator returns.
\<close>

definition Project_init :: "Project \<Rightarrow> error + Project" where
  "Project_init kwargs =
     (case end_must_be_after_start (expected_end_date kwargs)
             [''start_date'' \<mapsto> start_date kwargs] of
        Inl e \<Rightarrow> Inl e
      | Inr v \<Rightarrow> Inr (kwargs\<lparr>expected_end_date := v\<rparr>))"

section \<open>Evaluation engine (src/logic/deadline_checker.py)\<close>

text \<open>
  The text of an alert is an f-string; it is kept as its template together with the values
  interpolated into it, in the order they appear:
  \<^item> \<open>Msg_project_deadline name days expected_end_date\<close>,
  \<^item> \<open>Msg_milestone_overdue title expected_date (abs days)\<close>,
  \<^item> \<open>Msg_milestone_approaching title name days\<close>.
\<close>

datatype message =
    Msg_project_deadline string int date
  | Msg_milestone_overdue string date int
  | Msg_milestone_approaching string string int

record alert =
  type :: string
  target :: string
  days :: int
  severity :: string
  message :: message

text \<open>The class constant \<open>ALERT_THRESHOLDS\<close>, a dict, and subscripting a dict.\<close>

definition ALERT_THRESHOLDS :: "(string \<times> int list) list" where
  "ALERT_THRESHOLDS =
     [(''milestone'', [30, 15, 7, 3]),
      (''project_deadline'', [60, 30, 15, 7])]"

definition getitem :: "(string \<times> 'v) list \<Rightarrow> string \<Rightarrow> error + 'v" where
  "getitem d k = (case map_of d k of None \<Rightarrow> Inl (KeyError k) | Some v \<Rightarrow> Inr v)"

text \<open>
  \<open>_calculate_severity\<close>. The local \<open>thresholds\<close> (\<open>dict.get\<close> with a default) is
  computed and never read, as in the source.
\<close>

definition calculate_severity :: "int \<Rightarrow> string \<Rightarrow> string" where
  "calculate_severity d alert_type =
     (let thresholds = (case map_of ALERT_THRESHOLDS alert_type of
                          None \<Rightarrow> [30, 15, 7] | Some ts \<Rightarrow> ts)
      in if d \<le> 7 then ''CRITICO''
         else if d \<le> 15 then ''ALTO''
         else if d \<le> 30 then ''MEDIO''
         else ''BAIXO'')"

text \<open>
  The two threshold loops of \<open>check_project\<close>, each \<open>for threshold in ...: if days ==
  threshold: alerts.append(...); break\<close>. The list of alerts built so far is passed in
  and returned.
\<close>

fun deadline_loop :: "Project \<Rightarrow> int \<Rightarrow> int list \<Rightarrow> alert list \<Rightarrow> alert list" where
  "deadline_loop p d [] alerts = alerts"
| "deadline_loop p d (threshold # rest) alerts =
     (if d = threshold then
        alerts @ [\<lparr>type = ''project_deadline'',
                   target = name p,
                   days = d,
                   severity = calculate_severity d ''project'',
                   message = Msg_project_deadline (name p) d (expected_end_date p)\<rparr>]
      else deadline_loop p d rest alerts)"

fun approaching_loop ::
  "Project \<Rightarrow> Milestone \<Rightarrow> int \<Rightarrow> int list \<Rightarrow> alert list \<Rightarrow> alert list" where
  "approaching_loop p m d [] alerts = alerts"
| "approaching_loop p m d (threshold # rest) alerts =
     (if d = threshold then
        alerts @ [\<lparr>type = ''milestone_approaching'',
                   target = name p @ '' > '' @ title m,
                   days = d,
                   severity = calculate_severity d ''milestone'',
                   message = Msg_milestone_approaching (title m) (name p) d\<rparr>]
      else approaching_loop p m d rest alerts)"

text \<open>The loop over \<open>project.milestones\<close>; \<open>continue\<close> goes on with the next milestone.\<close>

fun milestones_loop ::
  "date \<Rightarrow> Project \<Rightarrow> Milestone list \<Rightarrow> alert list \<Rightarrow> error + alert list" where
  "milestones_loop today p [] alerts = Inr alerts"
| "milestones_loop today p (m # ms) alerts =
     (if m_status m = ''concluido'' \<or> actual_date m \<noteq> None then
        milestones_loop today p ms alerts
      else
        (case days_until today m of
          None \<Rightarrow> milestones_loop today p ms alerts
        | Some d \<Rightarrow>
            if d < 0 then
              milestones_loop today p ms
                (alerts @ [\<lparr>type = ''milestone_overdue'',
                            target = name p @ '' > '' @ title m,
                            days = abs d,
                            severity = ''CRITICO'',
                            message = Msg_milestone_overdue (title m) (expected_date m) (abs d)\<rparr>])
            else
              (case getitem ALERT_THRESHOLDS ''milestone'' of
                 Inl e \<Rightarrow> Inl e
               | Inr thresholds \<Rightarrow>
                   milestones_loop today p ms (approaching_loop p m d thresholds alerts))))"

definition check_project :: "date \<Rightarrow> Project \<Rightarrow> error + alert list" where
  "check_project today p =
     (case (case (if status p \<noteq> CONCLUIDO then days_until_deadline today p else None) of
              None \<Rightarrow> Inr []
            | Some d \<Rightarrow>
                (case getitem ALERT_THRESHOLDS ''project_deadline'' of
                   Inl e \<Rightarrow> Inl e
                 | Inr thresholds \<Rightarrow> Inr (deadline_loop p d thresholds []))) of
        Inl e \<Rightarrow> Inl e
      | Inr alerts \<Rightarrow> milestones_loop today p (milestones p) alerts)"

section \<open>Portfolio aggregation\<close>

record report =
  total_projects :: nat
  projects_at_risk :: nat
  alerts_by_severity :: "string \<rightharpoonup> alert list"
  all_alerts :: "alert list"
  generated_at :: date

text \<open>
  The first loop of \<open>batch_check\<close> carries \<open>all_alerts\<close> (here \<open>acc\<close>) and \<open>risk_count\<close>; the second
  one appends every alert to the bucket \<open>by_severity[alert['severity']]\<close>, which raises
  \<open>KeyError\<close> when the dict has no such key.
\<close>

fun projects_loop ::
  "date \<Rightarrow> Project list \<Rightarrow> alert list \<Rightarrow> nat \<Rightarrow> error + (alert list \<times> nat)" where
  "projects_loop today [] acc risk_count = Inr (acc, risk_count)"
| "projects_loop today (p # ps) acc risk_count =
     (case check_project today p of
        Inl e \<Rightarrow> Inl e
      | Inr alerts \<Rightarrow>
          projects_loop today ps (acc @ alerts)
            (if alerts \<noteq> [] \<or> is_at_risk today p then risk_count + 1 else risk_count))"

fun group_loop ::
  "alert list \<Rightarrow> (string \<rightharpoonup> alert list) \<Rightarrow> error + (string \<rightharpoonup> alert list)" where
  "group_loop [] by_severity = Inr by_severity"
| "group_loop (a # rest) by_severity =
     (case by_severity (severity a) of
        None \<Rightarrow> Inl (KeyError (severity a))
      | Some bucket \<Rightarrow> group_loop rest (by_severity(severity a \<mapsto> bucket @ [a])))"

definition batch_check :: "date \<Rightarrow> Project list \<Rightarrow> error + report" where
  "batch_check today projects =
     (case projects_loop today projects [] 0 of
        Inl e \<Rightarrow> Inl e
      | Inr (acc, risk_count) \<Rightarrow>
          (case group_loop acc
                  [''CRITICO'' \<mapsto> [], ''ALTO'' \<mapsto> [], ''MEDIO'' \<mapsto> [], ''BAIXO'' \<mapsto> []] of
             Inl e \<Rightarrow> Inl e
           | Inr by_severity \<Rightarrow>
               Inr \<lparr>total_projects = length projects,
                    projects_at_risk = risk_count,
                    alerts_by_severity = by_severity,
                    all_alerts = acc,
                    generated_at = today\<rparr>))"

section \<open>Auxiliary notions for the proofs\<close>

text \<open>
  What one iteration of the milestone loop appends for milestone \<open>m\<close> (the loop run on the
  one-element list, from no alerts), and what the project-deadline block of
  \<open>check_project\<close> produces.
\<close>

definition milestone_alerts :: "date \<Rightarrow> Project \<Rightarrow> Milestone \<Rightarrow> alert list" where
  "milestone_alerts today p m =
     (case milestones_loop today p [m] [] of Inl e \<Rightarrow> [] | Inr alerts \<Rightarrow> alerts)"

definition deadline_alerts :: "date \<Rightarrow> Project \<Rightarrow> alert list" where
  "deadline_alerts today p =
     (if status p \<noteq> CONCLUIDO then
        deadline_loop p (expected_end_date p - today) [60, 30, 15, 7] []
      else [])"

text \<open>The alerts \<open>check_project\<close> returns for a project.\<close>

definition project_alerts :: "date \<Rightarrow> Project \<Rightarrow> alert list" where
  "project_alerts today p =
     (case check_project today p of Inl e \<Rightarrow> [] | Inr alerts \<Rightarrow> alerts)"

section \<open>Concrete projects\<close>

text \<open>
  The fixture \<open>sample_project\<close> of tests/test_deadline_checker.py, relative to the current
  date: one milestone five days late, one due in seven days, the project due in twenty.
\<close>

definition sample_project :: "date \<Rightarrow> Project" where
  "sample_project today =
     \<lparr>p_id = ''PROJ-001'', name = ''Modernizacao Sistema X'', description = None,
      area_responsavel = ''CGIN'', responsible_team = [''team@cgim.gov.br''],
      status = EM_ANDAMENTO, risk_level = BAIXO,
      start_date = today - 30, expected_end_date = today + 20,
      milestones =
        [\<lparr>m_id = ''M1'', title = ''Levantamento de requisitos'',
           expected_date = today - 5, actual_date = None, m_status = ''pendente''\<rparr>,
         \<lparr>m_id = ''M2'', title = ''Desenvolvimento MVP'',
           expected_date = today + 7, actual_date = None, m_status = ''pendente''\<rparr>],
      created_at = 0, last_updated = 0, tags = [], recent_updates = []\<rparr>"

text \<open>
  The project of \<open>test_concluded_project_generates_no_alerts\<close> (status \<open>CONCLUIDO\<close>, end
  date in the past), here with one milestone that is still pending and five days late.
\<close>

definition concluded_project :: "date \<Rightarrow> Project" where
  "concluded_project today =
     \<lparr>p_id = ''PROJ-DONE'', name = ''Projeto Concluido'', description = None,
      area_responsavel = ''CGIN'', responsible_team = [''team@cgim.gov.br''],
      status = CONCLUIDO, risk_level = BAIXO,
      start_date = today - 200, expected_end_date = today - 50,
      milestones =
        [\<lparr>m_id = ''M1'', title = ''Entrega final'',
           expected_date = today - 5, actual_date = None, m_status = ''pendente''\<rparr>],
      created_at = 0, last_updated = 0, tags = [], recent_updates = []\<rparr>"

section \<open>The loops in closed form\<close>

lemma getitem_milestone: "getitem ALERT_THRESHOLDS ''milestone'' = Inr [30, 15, 7, 3]"
  by (simp add: getitem_def ALERT_THRESHOLDS_def)

lemma getitem_project_deadline:
  "getitem ALERT_THRESHOLDS ''project_deadline'' = Inr [60, 30, 15, 7]"
  by (simp add: getitem_def ALERT_THRESHOLDS_def)

lemma calculate_severity_bands:
  "calculate_severity d t =
     (if d \<le> 7 then ''CRITICO'' else if d \<le> 15 then ''ALTO''
      else if d \<le> 30 then ''MEDIO'' else ''BAIXO'')"
  by (simp add: calculate_severity_def Let_def)

lemma deadline_loop_mem:
  "deadline_loop p d ts alerts =
     (if d \<in> set ts then
        alerts @ [\<lparr>type = ''project_deadline'', target = name p, days = d,
                   severity = calculate_severity d ''project'',
                   message = Msg_project_deadline (name p) d (expected_end_date p)\<rparr>]
      else alerts)"
  by (induction ts) auto

lemma approaching_loop_mem:
  "approaching_loop p m d ts alerts =
     (if d \<in> set ts then
        alerts @ [\<lparr>type = ''milestone_approaching'', target = name p @ '' > '' @ title m,
                   days = d, severity = calculate_severity d ''milestone'',
                   message = Msg_milestone_approaching (title m) (name p) d\<rparr>]
      else alerts)"
  by (induction ts) auto

lemma milestones_loop_step:
  "milestones_loop today p (m # ms) alerts =
     milestones_loop today p ms (alerts @ milestone_alerts today p m)"
  by (simp add: milestone_alerts_def getitem_milestone approaching_loop_mem days_until_def)

lemma milestones_loop_concat:
  "milestones_loop today p ms alerts =
     Inr (alerts @ concat (map (milestone_alerts today p) ms))"
proof (induction ms arbitrary: alerts)
  case Nil
  show ?case by simp
next
  case (Cons m ms)
  show ?case
    unfolding milestones_loop_step Cons.IH by simp
qed

lemma milestone_alerts_eq:
  "milestone_alerts today p m =
     (if m_status m = ''concluido'' \<or> actual_date m \<noteq> None then []
      else if expected_date m - today < 0 then
        [\<lparr>type = ''milestone_overdue'', target = name p @ '' > '' @ title m,
          days = today - expected_date m, severity = ''CRITICO'',
          message = Msg_milestone_overdue (title m) (expected_date m)
                      (today - expected_date m)\<rparr>]
      else if expected_date m - today \<in> {30, 15, 7, 3} then
        [\<lparr>type = ''milestone_approaching'', target = name p @ '' > '' @ title m,
          days = expected_date m - today,
          severity = calculate_severity (expected_date m - today) ''milestone'',
          message = Msg_milestone_approaching (title m) (name p)
                      (expected_date m - today)\<rparr>]
      else [])"
  by (simp add: milestone_alerts_def getitem_milestone approaching_loop_mem days_until_def)

lemma check_project_eq:
  "check_project today p =
     Inr (deadline_alerts today p @ concat (map (milestone_alerts today p) (milestones p)))"
  by (simp add: check_project_def days_until_deadline_def getitem_project_deadline
      milestones_loop_concat deadline_alerts_def)

lemma milestone_alerts_upd [simp]:
  "milestone_alerts today (p\<lparr>milestones := ms\<rparr>) = milestone_alerts today p"
  by (rule ext) (simp add: milestone_alerts_eq)

lemma deadline_alerts_upd [simp]:
  "deadline_alerts today (p\<lparr>milestones := ms\<rparr>) = deadline_alerts today p"
  by (simp add: deadline_alerts_def deadline_loop_mem)

text \<open>
  The alerts of a project split at its \<open>i\<close>-th milestone: what the run over the milestones
  before it returns, what the \<open>i\<close>-th iteration appends, and what the iterations after it
  append.
\<close>

lemma check_project_split:
  assumes "i < length (milestones p)"
  shows "check_project today (p\<lparr>milestones := take i (milestones p)\<rparr>) =
           Inr (deadline_alerts today p @
                concat (map (milestone_alerts today p) (take i (milestones p))))
       \<and> milestones_loop today p (drop (Suc i) (milestones p)) [] =
           Inr (concat (map (milestone_alerts today p) (drop (Suc i) (milestones p))))
       \<and> check_project today p =
           Inr ((deadline_alerts today p @
                 concat (map (milestone_alerts today p) (take i (milestones p))))
                @ milestone_alerts today p (milestones p ! i)
                @ concat (map (milestone_alerts today p) (drop (Suc i) (milestones p))))"
proof -
  have "milestones p = take i (milestones p) @ (milestones p ! i) # drop (Suc i) (milestones p)"
    using assms by (rule id_take_nth_drop)
  then have "concat (map (milestone_alerts today p) (milestones p)) =
      concat (map (milestone_alerts today p) (take i (milestones p)))
      @ milestone_alerts today p (milestones p ! i)
      @ concat (map (milestone_alerts today p) (drop (Suc i) (milestones p)))"
    by (metis concat.simps(2) concat_append list.simps(9) map_append)
  then show ?thesis
    by (simp add: check_project_eq milestones_loop_concat)
qed

lemma check_project_at:
  assumes "i < length (milestones p)"
  shows "\<exists>pre post.
           check_project today (p\<lparr>milestones := take i (milestones p)\<rparr>) = Inr pre
         \<and> milestones_loop today p (drop (Suc i) (milestones p)) [] = Inr post
         \<and> check_project today p =
             Inr (pre @ milestone_alerts today p (milestones p ! i) @ post)"
  using check_project_split [OF assms, of today] by blast

lemma type_milestone_alerts:
  "a \<in> set (milestone_alerts today p m) \<Longrightarrow>
     type a = ''milestone_overdue'' \<or> type a = ''milestone_approaching''"
  by (auto simp: milestone_alerts_eq split: if_splits)

lemma no_deadline_alert_in_milestones:
  "filter (\<lambda>a. type a = ''project_deadline'') (concat (map (milestone_alerts today p) ms)) = []"
  by (auto simp: filter_empty_conv dest!: type_milestone_alerts)

section \<open>Overdue milestones\<close>

text \<open>
  C2. Let the \<open>i\<close>-th milestone of a project have no actual-completion date, a status other
  than \<open>concluido\<close> and an expected date strictly before today. Then its iteration of the
  milestone loop appends exactly one alert to the alerts \<open>pre\<close> gathered up to it (the result
  of \<open>check_project\<close> on the project cut before that milestone): a \<open>milestone_overdue\<close>
  alert of severity \<open>CRITICO\<close> whose day count is \<open>today - expected_date\<close>. The alerts
  \<open>post\<close> of the later milestones follow it.
\<close>

theorem overdue_milestone_exactly_one_alert:
  assumes "i < length (milestones p)"
    and "actual_date (milestones p ! i) = None"
    and "m_status (milestones p ! i) \<noteq> ''concluido''"
    and "expected_date (milestones p ! i) < today"
  shows "\<exists>pre post.
           check_project today (p\<lparr>milestones := take i (milestones p)\<rparr>) = Inr pre
         \<and> milestones_loop today p (drop (Suc i) (milestones p)) [] = Inr post
         \<and> check_project today p =
             Inr (pre @
                  [\<lparr>type = ''milestone_overdue'',
                    target = name p @ '' > '' @ title (milestones p ! i),
                    days = today - expected_date (milestones p ! i),
                    severity = ''CRITICO'',
                    message = Msg_milestone_overdue (title (milestones p ! i))
                                (expected_date (milestones p ! i))
                                (today - expected_date (milestones p ! i))\<rparr>]
                  @ post)"
proof -
  have "milestone_alerts today p (milestones p ! i) =
          [\<lparr>type = ''milestone_overdue'',
            target = name p @ '' > '' @ title (milestones p ! i),
            days = today - expected_date (milestones p ! i),
            severity = ''CRITICO'',
            message = Msg_milestone_overdue (title (milestones p ! i))
                        (expected_date (milestones p ! i))
                        (today - expected_date (milestones p ! i))\<rparr>]"
    using assms(2-4) by (simp add: milestone_alerts_eq)
  with check_project_at [OF assms(1), of today] show ?thesis
    by simp
qed

text \<open>
  The fixture on day 100: its first milestone was due on day 95, and the alert reports a
  delay of five days.
\<close>

theorem overdue_milestone_exactly_one_alert_witness:
  "0 < length (milestones (sample_project 100))
   \<and> actual_date (milestones (sample_project 100) ! 0) = None
   \<and> m_status (milestones (sample_project 100) ! 0) \<noteq> ''concluido''
   \<and> expected_date (milestones (sample_project 100) ! 0) < 100
   \<and> (\<exists>pre post.
           check_project 100
             ((sample_project 100)\<lparr>milestones := take 0 (milestones (sample_project 100))\<rparr>)
             = Inr pre
         \<and> milestones_loop 100 (sample_project 100)
             (drop (Suc 0) (milestones (sample_project 100))) [] = Inr post
         \<and> check_project 100 (sample_project 100) =
             Inr (pre @
                  [\<lparr>type = ''milestone_overdue'',
                    target = ''Modernizacao Sistema X > Levantamento de requisitos'',
                    days = 5,
                    severity = ''CRITICO'',
                    message = Msg_milestone_overdue ''Levantamento de requisitos'' 95 5\<rparr>]
                  @ post))"
proof -
  have h1: "0 < length (milestones (sample_project 100))"
    by (simp add: sample_project_def)
  have h2: "actual_date (milestones (sample_project 100) ! 0) = None"
    by (simp add: sample_project_def)
  have h3: "m_status (milestones (sample_project 100) ! 0) \<noteq> ''concluido''"
    by (simp add: sample_project_def)
  have h4: "expected_date (milestones (sample_project 100) ! 0) < 100"
    by (simp add: sample_project_def)
  have v: "title (milestones (sample_project 100) ! 0) = ''Levantamento de requisitos''"
    "expected_date (milestones (sample_project 100) ! 0) = 95"
    "name (sample_project 100) = ''Modernizacao Sistema X''"
    by (simp_all add: sample_project_def)
  show ?thesis
    using h1 h2 h3 h4 overdue_milestone_exactly_one_alert [OF h1 h2 h3 h4]
    unfolding v by simp
qed

section \<open>Approaching milestones\<close>

text \<open>
  C3. Let the \<open>i\<close>-th milestone of a project be open (status other than \<open>concluido\<close>, no
  actual-completion date) with \<open>days_until = d\<close> and \<open>d\<close> not negative. If \<open>d\<close> is one of
  30, 15, 7, 3, its iteration appends exactly one \<open>milestone_approaching\<close> alert with day
  count \<open>d\<close> and the severity the banding function gives for \<open>d\<close>; for every other \<open>d\<close> it
  appends nothing.
\<close>

theorem approaching_milestone_alert:
  assumes "i < length (milestones p)"
    and "m_status (milestones p ! i) \<noteq> ''concluido''"
    and "actual_date (milestones p ! i) = None"
    and "days_until today (milestones p ! i) = Some d"
    and "0 \<le> d"
  shows "\<exists>pre post.
           check_project today (p\<lparr>milestones := take i (milestones p)\<rparr>) = Inr pre
         \<and> milestones_loop today p (drop (Suc i) (milestones p)) [] = Inr post
         \<and> check_project today p =
             Inr (pre @
                  (if d \<in> {30, 15, 7, 3} then
                     [\<lparr>type = ''milestone_approaching'',
                       target = name p @ '' > '' @ title (milestones p ! i),
                       days = d,
                       severity = calculate_severity d ''milestone'',
                       message = Msg_milestone_approaching (title (milestones p ! i))
                                   (name p) d\<rparr>]
                   else [])
                  @ post)"
proof -
  have d: "d = expected_date (milestones p ! i) - today"
    using assms(4) by (simp add: days_until_def split: if_splits)
  have "milestone_alerts today p (milestones p ! i) =
          (if d \<in> {30, 15, 7, 3} then
                     [\<lparr>type = ''milestone_approaching'',
                       target = name p @ '' > '' @ title (milestones p ! i),
                       days = d,
                       severity = calculate_severity d ''milestone'',
                       message = Msg_milestone_approaching (title (milestones p ! i))
                                   (name p) d\<rparr>]
                   else [])"
    using assms(2,3,5) unfolding d by (simp add: milestone_alerts_eq)
  with check_project_at [OF assms(1), of today] show ?thesis
    by simp
qed

text \<open>The second milestone of the fixture is due in seven days.\<close>

theorem approaching_milestone_alert_witness:
  "1 < length (milestones (sample_project 100))
   \<and> m_status (milestones (sample_project 100) ! 1) \<noteq> ''concluido''
   \<and> actual_date (milestones (sample_project 100) ! 1) = None
   \<and> days_until 100 (milestones (sample_project 100) ! 1) = Some 7
   \<and> (0::int) \<le> 7
   \<and> (\<exists>pre post.
           check_project 100
             ((sample_project 100)\<lparr>milestones := take 1 (milestones (sample_project 100))\<rparr>)
             = Inr pre
         \<and> milestones_loop 100 (sample_project 100)
             (drop (Suc 1) (milestones (sample_project 100))) [] = Inr post
         \<and> check_project 100 (sample_project 100) =
             Inr (pre @
                  [\<lparr>type = ''milestone_approaching'',
                    target = ''Modernizacao Sistema X > Desenvolvimento MVP'',
                    days = 7,
                    severity = ''CRITICO'',
                    message = Msg_milestone_approaching ''Desenvolvimento MVP''
                                ''Modernizacao Sistema X'' 7\<rparr>]
                  @ post))"
proof -
  have h1: "1 < length (milestones (sample_project 100))"
    by (simp add: sample_project_def)
  have h2: "m_status (milestones (sample_project 100) ! 1) \<noteq> ''concluido''"
    by (simp add: sample_project_def)
  have h3: "actual_date (milestones (sample_project 100) ! 1) = None"
    by (simp add: sample_project_def)
  have h4: "days_until 100 (milestones (sample_project 100) ! 1) = Some 7"
    by (simp add: sample_project_def days_until_def)
  have h5: "(0::int) \<le> 7"
    by simp
  have v: "title (milestones (sample_project 100) ! 1) = ''Desenvolvimento MVP''"
    "name (sample_project 100) = ''Modernizacao Sistema X''"
    "calculate_severity 7 ''milestone'' = ''CRITICO''"
    by (simp_all add: sample_project_def calculate_severity_bands)
  show ?thesis
    using h1 h2 h3 h4 approaching_milestone_alert [OF h1 h2 h3 h4 h5]
    unfolding v by simp
qed

section \<open>The project deadline\<close>

text \<open>
  C4. For a project that is not \<open>CONCLUIDO\<close>, with \<open>days_until_deadline = d\<close>, the alerts of
  type \<open>project_deadline\<close> in the result of \<open>check_project\<close> are exactly one alert (day
  count \<open>d\<close>, severity from the banding function) when \<open>d\<close> is one of 60, 30, 15, 7, and
  none otherwise; at \<open>d = 7\<close> the severity is \<open>CRITICO\<close>. The threshold loop stops at the
  first match: over any list of thresholds, repeated values included, it appends one alert
  when \<open>d\<close> occurs in the list and none when it does not.
\<close>

theorem project_deadline_alert:
  assumes "status p \<noteq> CONCLUIDO"
    and "days_until_deadline today p = Some d"
  shows "(\<exists>alerts.
           check_project today p = Inr alerts
         \<and> filter (\<lambda>a. type a = ''project_deadline'') alerts =
             (if d \<in> {60, 30, 15, 7} then
                [\<lparr>type = ''project_deadline'', target = name p, days = d,
                  severity = calculate_severity d ''project'',
                  message = Msg_project_deadline (name p) d (expected_end_date p)\<rparr>]
              else [])
         \<and> (d = 7 \<longrightarrow>
              map severity (filter (\<lambda>a. type a = ''project_deadline'') alerts) = [''CRITICO'']))
       \<and> length (deadline_loop p d ts acc) = length acc + (if d \<in> set ts then 1 else 0)"
proof -
  have d: "d = expected_end_date p - today"
    using assms by (simp add: days_until_deadline_def)
  have "filter (\<lambda>a. type a = ''project_deadline'') (deadline_alerts today p) =
             (if d \<in> {60, 30, 15, 7} then
                [\<lparr>type = ''project_deadline'', target = name p, days = d,
                  severity = calculate_severity d ''project'',
                  message = Msg_project_deadline (name p) d (expected_end_date p)\<rparr>]
              else [])"
    using assms(1) unfolding d by (simp add: deadline_alerts_def deadline_loop_mem)
  then show ?thesis
    by (simp add: check_project_eq no_deadline_alert_in_milestones deadline_loop_mem
        calculate_severity_bands)
qed

text \<open>The fixture with its end date moved to seven days from today.\<close>

theorem project_deadline_alert_witness:
  "status ((sample_project 100)\<lparr>expected_end_date := 107\<rparr>) \<noteq> CONCLUIDO
   \<and> days_until_deadline 100 ((sample_project 100)\<lparr>expected_end_date := 107\<rparr>) = Some 7
   \<and> (\<exists>alerts.
           check_project 100 ((sample_project 100)\<lparr>expected_end_date := 107\<rparr>) = Inr alerts
         \<and> filter (\<lambda>a. type a = ''project_deadline'') alerts =
             [\<lparr>type = ''project_deadline'', target = ''Modernizacao Sistema X'', days = 7,
               severity = ''CRITICO'',
               message = Msg_project_deadline ''Modernizacao Sistema X'' 7 107\<rparr>]
         \<and> map severity (filter (\<lambda>a. type a = ''project_deadline'') alerts) = [''CRITICO''])
   \<and> length (deadline_loop ((sample_project 100)\<lparr>expected_end_date := 107\<rparr>) 7 [7, 7] []) = 1"
proof -
  have h1: "status ((sample_project 100)\<lparr>expected_end_date := 107\<rparr>) \<noteq> CONCLUIDO"
    by (simp add: sample_project_def)
  have h2: "days_until_deadline 100 ((sample_project 100)\<lparr>expected_end_date := 107\<rparr>) = Some 7"
    by (simp add: sample_project_def days_until_deadline_def)
  have v: "name ((sample_project 100)\<lparr>expected_end_date := 107\<rparr>) = ''Modernizacao Sistema X''"
    "expected_end_date ((sample_project 100)\<lparr>expected_end_date := 107\<rparr>) = 107"
    "calculate_severity 7 ''project'' = ''CRITICO''"
    by (simp_all add: sample_project_def calculate_severity_bands)
  show ?thesis
    using h1 h2 project_deadline_alert [OF h1 h2, of "[7, 7]" "[]"]
    unfolding v by simp
qed

section \<open>Severity bands\<close>

text \<open>
  C5. \<open>_calculate_severity\<close> returns \<open>CRITICO\<close> for \<open>days \<le> 7\<close>, \<open>ALTO\<close> for
  \<open>7 < days \<le> 15\<close>, \<open>MEDIO\<close> for \<open>15 < days \<le> 30\<close> and \<open>BAIXO\<close> above; the result is the
  same for the two alert types the engine passes, and for any two values of the alert-type
  argument.
\<close>

theorem severity_banding:
  "calculate_severity d t =
     (if d \<le> 7 then ''CRITICO''
      else if d \<le> 15 then ''ALTO''
      else if d \<le> 30 then ''MEDIO''
      else ''BAIXO'')
   \<and> calculate_severity d ''project'' = calculate_severity d ''milestone''
   \<and> calculate_severity d t = calculate_severity d t'"
  by (simp add: calculate_severity_bands)

theorem severity_banding_witness:
  "calculate_severity 7 ''project'' = ''CRITICO''
   \<and> calculate_severity 8 ''milestone'' = ''ALTO''
   \<and> calculate_severity 15 ''project'' = ''ALTO''
   \<and> calculate_severity 30 ''milestone'' = ''MEDIO''
   \<and> calculate_severity 60 ''project'' = ''BAIXO''
   \<and> calculate_severity (- 2) ''project_deadline'' = ''CRITICO''"
  using severity_banding [of 7 "''project''"] severity_banding [of 8 "''milestone''"]
    severity_banding [of 15 "''project''"] severity_banding [of 30 "''milestone''"]
    severity_banding [of 60 "''project''"] severity_banding [of "- 2" "''project_deadline''"]
  by simp

section \<open>Projects at risk\<close>

text \<open>
  C6. \<open>is_at_risk\<close> holds exactly when \<open>days_until_deadline\<close> is defined and at most 15, or
  some milestone is overdue. It is a function of the project and the date only, and it is
  independent of the alerts: there is a project at risk for which \<open>check_project\<close> returns
  no alert, and a project not at risk for which it returns one.
\<close>

theorem is_at_risk_iff:
  "(is_at_risk today p \<longleftrightarrow>
      (\<exists>d. days_until_deadline today p = Some d \<and> d \<le> 15)
      \<or> (\<exists>m \<in> set (milestones p). is_overdue today m))
   \<and> (\<exists>q. is_at_risk today q \<and> check_project today q = Inr [])
   \<and> (\<exists>q alerts. \<not> is_at_risk today q \<and> check_project today q = Inr alerts \<and> alerts \<noteq> [])"
proof (intro conjI)
  show "is_at_risk today p \<longleftrightarrow>
      (\<exists>d. days_until_deadline today p = Some d \<and> d \<le> 15)
      \<or> (\<exists>m \<in> set (milestones p). is_overdue today m)"
    by (cases "days_until_deadline today p") (auto simp: is_at_risk_def list_ex_iff)
next
  let ?q = "(sample_project today)\<lparr>expected_end_date := today + 10, milestones := []\<rparr>"
  have "is_at_risk today ?q \<and> check_project today ?q = Inr []"
    by (simp add: is_at_risk_def days_until_deadline_def sample_project_def check_project_eq
        deadline_alerts_def deadline_loop_mem)
  then show "\<exists>q. is_at_risk today q \<and> check_project today q = Inr []"
    by blast
next
  let ?q = "(sample_project today)\<lparr>expected_end_date := today + 30, milestones := []\<rparr>"
  have "\<not> is_at_risk today ?q \<and> check_project today ?q =
      Inr (deadline_alerts today ?q) \<and> deadline_alerts today ?q \<noteq> []"
    by (simp add: is_at_risk_def days_until_deadline_def sample_project_def check_project_eq
        deadline_alerts_def deadline_loop_mem)
  then show "\<exists>q alerts. \<not> is_at_risk today q \<and> check_project today q = Inr alerts \<and> alerts \<noteq> []"
    by blast
qed

text \<open>
  The fixture is due in twenty days and is at risk through its late milestone; without
  milestones it is not at risk.
\<close>

theorem is_at_risk_iff_witness:
  "is_at_risk 100 (sample_project 100)
   \<and> days_until_deadline 100 (sample_project 100) = Some 20
   \<and> is_overdue 100 (milestones (sample_project 100) ! 0)
   \<and> \<not> is_at_risk 100 ((sample_project 100)\<lparr>milestones := []\<rparr>)"
proof -
  have "is_overdue 100 (milestones (sample_project 100) ! 0)"
    by (simp add: is_overdue_def sample_project_def)
  moreover have "milestones (sample_project 100) ! 0 \<in> set (milestones (sample_project 100))"
    by (simp add: sample_project_def)
  moreover have "days_until_deadline 100 (sample_project 100) = Some 20"
    by (simp add: days_until_deadline_def sample_project_def)
  moreover have "days_until_deadline 100 ((sample_project 100)\<lparr>milestones := []\<rparr>) = Some 20"
    by (simp add: days_until_deadline_def sample_project_def)
  ultimately show ?thesis
    using is_at_risk_iff [of 100 "sample_project 100"]
      is_at_risk_iff [of 100 "(sample_project 100)\<lparr>milestones := []\<rparr>"]
    by auto
qed

section \<open>The portfolio report in closed form\<close>

lemma check_project_total: "check_project today p = Inr (project_alerts today p)"
  by (simp add: project_alerts_def check_project_eq)

lemma project_alerts_eq:
  "project_alerts today p =
     deadline_alerts today p @ concat (map (milestone_alerts today p) (milestones p))"
  by (simp add: project_alerts_def check_project_eq)

lemma calculate_severity_range:
  "calculate_severity d t \<in> {''CRITICO'', ''ALTO'', ''MEDIO'', ''BAIXO''}"
  by (simp add: calculate_severity_bands)

lemma severity_milestone_alerts:
  "a \<in> set (milestone_alerts today p m) \<Longrightarrow>
     severity a \<in> {''CRITICO'', ''ALTO'', ''MEDIO'', ''BAIXO''}"
  using calculate_severity_range [of "expected_date m - today" "''milestone''"]
  by (auto simp: milestone_alerts_eq split: if_splits)

lemma severity_deadline_alerts:
  "a \<in> set (deadline_alerts today p) \<Longrightarrow>
     severity a \<in> {''CRITICO'', ''ALTO'', ''MEDIO'', ''BAIXO''}"
  using calculate_severity_range [of "expected_end_date p - today" "''project''"]
  by (auto simp: deadline_alerts_def deadline_loop_mem split: if_splits)

lemma severity_project_alerts:
  "a \<in> set (project_alerts today p) \<Longrightarrow>
     severity a \<in> {''CRITICO'', ''ALTO'', ''MEDIO'', ''BAIXO''}"
  by (auto simp: project_alerts_eq dest: severity_milestone_alerts severity_deadline_alerts)

lemma projects_loop_eq:
  "projects_loop today ps acc n =
     Inr (acc @ concat (map (project_alerts today) ps),
          n + length (filter (\<lambda>p. project_alerts today p \<noteq> [] \<or> is_at_risk today p) ps))"
  by (induction ps arbitrary: acc n) (simp_all add: check_project_total)

lemma group_loop_eq:
  "\<forall>a \<in> set as. by_severity (severity a) \<noteq> None \<Longrightarrow>
   group_loop as by_severity =
     Inr (\<lambda>k. map_option (\<lambda>bucket. bucket @ filter (\<lambda>a. severity a = k) as) (by_severity k))"
proof (induction as arbitrary: by_severity)
  case Nil
  show ?case by (simp add: option.map_ident)
next
  case (Cons a as)
  from Cons.prems obtain bucket where b: "by_severity (severity a) = Some bucket"
    by auto
  have "\<forall>x \<in> set as. (by_severity(severity a \<mapsto> bucket @ [a])) (severity x) \<noteq> None"
    using Cons.prems by simp
  from Cons.IH [OF this]
  have "group_loop as (by_severity(severity a \<mapsto> bucket @ [a])) =
      Inr (\<lambda>k. map_option (\<lambda>bucket. bucket @ filter (\<lambda>a. severity a = k) as)
                 ((by_severity(severity a \<mapsto> bucket @ [a])) k))" .
  moreover have "(\<lambda>k. map_option (\<lambda>bucket. bucket @ filter (\<lambda>a. severity a = k) as)
                 ((by_severity(severity a \<mapsto> bucket @ [a])) k)) =
      (\<lambda>k. map_option (\<lambda>bucket. bucket @ filter (\<lambda>x. severity x = k) (a # as))
                 (by_severity k))"
  proof (rule ext)
    fix k
    show "map_option (\<lambda>bucket. bucket @ filter (\<lambda>a. severity a = k) as)
                 ((by_severity(severity a \<mapsto> bucket @ [a])) k) =
      map_option (\<lambda>bucket. bucket @ filter (\<lambda>x. severity x = k) (a # as)) (by_severity k)"
      by (cases "k = severity a") (simp_all add: b)
  qed
  ultimately show ?case
    using b by simp
qed

lemma batch_check_eq:
  "batch_check today ps =
     Inr \<lparr>total_projects = length ps,
          projects_at_risk =
            length (filter (\<lambda>p. project_alerts today p \<noteq> [] \<or> is_at_risk today p) ps),
          alerts_by_severity =
            (\<lambda>k. if k \<in> {''CRITICO'', ''ALTO'', ''MEDIO'', ''BAIXO''}
                 then Some (filter (\<lambda>a. severity a = k) (concat (map (project_alerts today) ps)))
                 else None),
          all_alerts = concat (map (project_alerts today) ps),
          generated_at = today\<rparr>"
proof -
  let ?all = "concat (map (project_alerts today) ps)"
  let ?init = "[''CRITICO'' \<mapsto> [], ''ALTO'' \<mapsto> [], ''MEDIO'' \<mapsto> [], ''BAIXO'' \<mapsto> []]
                 :: string \<rightharpoonup> alert list"
  have "\<forall>a \<in> set ?all. severity a \<in> {''CRITICO'', ''ALTO'', ''MEDIO'', ''BAIXO''}"
    by (auto dest: severity_project_alerts)
  then have "\<forall>a \<in> set ?all. ?init (severity a) \<noteq> None"
    by auto
  then have "group_loop ?all ?init =
      Inr (\<lambda>k. map_option (\<lambda>bucket. bucket @ filter (\<lambda>a. severity a = k) ?all) (?init k))"
    by (rule group_loop_eq)
  moreover have "(\<lambda>k. map_option (\<lambda>bucket. bucket @ filter (\<lambda>a. severity a = k) ?all) (?init k)) =
      (\<lambda>k. if k \<in> {''CRITICO'', ''ALTO'', ''MEDIO'', ''BAIXO''}
           then Some (filter (\<lambda>a. severity a = k) ?all) else None)"
    by (rule ext) simp
  ultimately show ?thesis
    by (simp add: batch_check_def projects_loop_eq)
qed

lemma mset_four_buckets:
  "\<forall>a \<in> set xs. severity a \<in> {''CRITICO'', ''ALTO'', ''MEDIO'', ''BAIXO''} \<Longrightarrow>
   mset (filter (\<lambda>a. severity a = ''CRITICO'') xs @ filter (\<lambda>a. severity a = ''ALTO'') xs @
         filter (\<lambda>a. severity a = ''MEDIO'') xs @ filter (\<lambda>a. severity a = ''BAIXO'') xs)
     = mset xs"
  by (induction xs) auto

lemma check_sample_project:
  "check_project 100 (sample_project 100) =
     Inr [\<lparr>type = ''milestone_overdue'',
           target = ''Modernizacao Sistema X > Levantamento de requisitos'',
           days = 5, severity = ''CRITICO'',
           message = Msg_milestone_overdue ''Levantamento de requisitos'' 95 5\<rparr>,
          \<lparr>type = ''milestone_approaching'',
           target = ''Modernizacao Sistema X > Desenvolvimento MVP'',
           days = 7, severity = ''CRITICO'',
           message = Msg_milestone_approaching ''Desenvolvimento MVP''
                       ''Modernizacao Sistema X'' 7\<rparr>]"
  by (simp add: check_project_eq deadline_alerts_def deadline_loop_mem milestone_alerts_eq
      sample_project_def calculate_severity_bands)

section \<open>Partition by severity\<close>

text \<open>
  C7. For every list of projects \<open>batch_check\<close> returns a report in which \<open>all_alerts\<close> is
  the concatenation, in the order of the projects, of the lists \<open>check_project\<close> returns;
  \<open>alerts_by_severity\<close> has exactly the four keys, and the bucket of key \<open>k\<close> is
  \<open>all_alerts\<close> filtered to severity \<open>k\<close>, so the order inside a bucket is that of
  \<open>all_alerts\<close>; every alert of \<open>all_alerts\<close> is in the bucket of exactly one key; and the
  four buckets together hold the alerts of \<open>all_alerts\<close> with the same multiplicities.
\<close>

theorem batch_check_partition:
  "\<exists>r. batch_check today ps = Inr r
     \<and> (\<exists>per_project. map (check_project today) ps = map Inr per_project
                       \<and> all_alerts r = concat per_project)
     \<and> dom (alerts_by_severity r) = {''CRITICO'', ''ALTO'', ''MEDIO'', ''BAIXO''}
     \<and> (\<forall>k \<in> dom (alerts_by_severity r).
           alerts_by_severity r k = Some (filter (\<lambda>a. severity a = k) (all_alerts r)))
     \<and> (\<forall>a \<in> set (all_alerts r).
           \<exists>!k. k \<in> dom (alerts_by_severity r) \<and> a \<in> set (the (alerts_by_severity r k)))
     \<and> mset (the (alerts_by_severity r ''CRITICO'') @ the (alerts_by_severity r ''ALTO'') @
              the (alerts_by_severity r ''MEDIO'') @ the (alerts_by_severity r ''BAIXO''))
         = mset (all_alerts r)"
proof -
  let ?all = "concat (map (project_alerts today) ps)"
  let ?keys = "{''CRITICO'', ''ALTO'', ''MEDIO'', ''BAIXO''}"
  let ?by = "\<lambda>k. if k \<in> ?keys then Some (filter (\<lambda>a. severity a = k) ?all) else None"
  let ?r = "\<lparr>total_projects = length ps,
             projects_at_risk =
               length (filter (\<lambda>p. project_alerts today p \<noteq> [] \<or> is_at_risk today p) ps),
             alerts_by_severity = ?by, all_alerts = ?all, generated_at = today\<rparr>"
  have sev: "\<forall>a \<in> set ?all. severity a \<in> ?keys"
    by (auto dest: severity_project_alerts)
  have r: "batch_check today ps = Inr ?r"
    by (rule batch_check_eq)
  have per: "map (check_project today) ps = map Inr (map (project_alerts today) ps)"
    by (simp add: check_project_total)
  have dom: "dom ?by = ?keys"
    by (auto simp: dom_def)
  have buckets: "\<forall>k \<in> dom ?by. ?by k = Some (filter (\<lambda>a. severity a = k) ?all)"
    by (auto simp: dom_def)
  have one: "\<forall>a \<in> set ?all. \<exists>!k. k \<in> dom ?by \<and> a \<in> set (the (?by k))"
  proof
    fix a assume a: "a \<in> set ?all"
    with sev have "severity a \<in> ?keys" by blast
    with a have "severity a \<in> dom ?by \<and> a \<in> set (the (?by (severity a)))"
      unfolding dom by simp
    moreover have "k = severity a" if "k \<in> dom ?by \<and> a \<in> set (the (?by k))" for k
      using that unfolding dom by (simp split: if_splits)
    ultimately show "\<exists>!k. k \<in> dom ?by \<and> a \<in> set (the (?by k))"
      by blast
  qed
  have ms: "mset (the (?by ''CRITICO'') @ the (?by ''ALTO'') @ the (?by ''MEDIO'') @
                  the (?by ''BAIXO'')) = mset ?all"
    using mset_four_buckets [OF sev] by simp
  show ?thesis
    apply (rule exI [of _ ?r])
    apply (intro conjI)
    subgoal by (rule r)
    subgoal using per by (intro exI [of _ "map (project_alerts today) ps"]) simp
    subgoal using dom by simp
    subgoal using buckets by simp
    subgoal using one by simp
    subgoal using ms by simp
    done
qed

text \<open>The report for the fixture alone: both of its alerts are \<open>CRITICO\<close>.\<close>

theorem batch_check_partition_witness:
  "\<exists>r. batch_check 100 [sample_project 100] = Inr r
     \<and> all_alerts r =
         [\<lparr>type = ''milestone_overdue'',
           target = ''Modernizacao Sistema X > Levantamento de requisitos'',
           days = 5, severity = ''CRITICO'',
           message = Msg_milestone_overdue ''Levantamento de requisitos'' 95 5\<rparr>,
          \<lparr>type = ''milestone_approaching'',
           target = ''Modernizacao Sistema X > Desenvolvimento MVP'',
           days = 7, severity = ''CRITICO'',
           message = Msg_milestone_approaching ''Desenvolvimento MVP''
                       ''Modernizacao Sistema X'' 7\<rparr>]
     \<and> alerts_by_severity r ''CRITICO'' = Some (all_alerts r)
     \<and> alerts_by_severity r ''ALTO'' = Some []
     \<and> alerts_by_severity r ''MEDIO'' = Some []
     \<and> alerts_by_severity r ''BAIXO'' = Some []"
proof -
  from batch_check_partition [of 100 "[sample_project 100]"]
  obtain r per_project where
    r: "batch_check 100 [sample_project 100] = Inr r"
    and per: "map (check_project 100) [sample_project 100] = map Inr per_project"
    and cat: "all_alerts r = concat per_project"
    and dom: "dom (alerts_by_severity r) = {''CRITICO'', ''ALTO'', ''MEDIO'', ''BAIXO''}"
    and buckets: "\<forall>k \<in> dom (alerts_by_severity r).
           alerts_by_severity r k = Some (filter (\<lambda>a. severity a = k) (all_alerts r))"
    by (elim exE conjE)
  from per obtain alerts where "per_project = [alerts]"
    and "check_project 100 (sample_project 100) = Inr alerts"
    by (cases per_project) auto
  with cat have all: "all_alerts r =
         [\<lparr>type = ''milestone_overdue'',
           target = ''Modernizacao Sistema X > Levantamento de requisitos'',
           days = 5, severity = ''CRITICO'',
           message = Msg_milestone_overdue ''Levantamento de requisitos'' 95 5\<rparr>,
          \<lparr>type = ''milestone_approaching'',
           target = ''Modernizacao Sistema X > Desenvolvimento MVP'',
           days = 7, severity = ''CRITICO'',
           message = Msg_milestone_approaching ''Desenvolvimento MVP''
                       ''Modernizacao Sistema X'' 7\<rparr>]"
    by (simp add: check_sample_project)
  have "alerts_by_severity r k = Some (filter (\<lambda>a. severity a = k) (all_alerts r))"
    if "k \<in> {''CRITICO'', ''ALTO'', ''MEDIO'', ''BAIXO''}" for k
    using buckets that unfolding dom by blast
  from this [of "''CRITICO''"] this [of "''ALTO''"] this [of "''MEDIO''"] this [of "''BAIXO''"]
  have "alerts_by_severity r ''CRITICO'' = Some (all_alerts r)
     \<and> alerts_by_severity r ''ALTO'' = Some []
     \<and> alerts_by_severity r ''MEDIO'' = Some []
     \<and> alerts_by_severity r ''BAIXO'' = Some []"
    unfolding all by simp
  with r all show ?thesis
    by blast
qed

section \<open>Counting projects at risk\<close>

text \<open>
  C8. The report gives \<open>total_projects\<close> as the length of the input and
  \<open>projects_at_risk\<close> as the number of projects for which \<open>check_project\<close> returned at
  least one alert or \<open>is_at_risk\<close> holds.
\<close>

theorem batch_check_counts:
  "\<exists>r. batch_check today ps = Inr r
     \<and> total_projects r = length ps
     \<and> projects_at_risk r =
         length (filter (\<lambda>p. (\<exists>a rest. check_project today p = Inr (a # rest))
                            \<or> is_at_risk today p) ps)"
proof -
  have "(project_alerts today p \<noteq> []) = (\<exists>a rest. check_project today p = Inr (a # rest))" for p
    by (cases "project_alerts today p") (simp_all add: check_project_total)
  then show ?thesis
    by (simp add: batch_check_eq)
qed

text \<open>
  Three projects: the fixture (two alerts), one due in ten days with no milestones (no
  alert, at risk) and one due in fifty days with no milestones (no alert, not at risk).
\<close>

theorem batch_check_counts_witness:
  "\<exists>r. batch_check 100
         [sample_project 100,
          (sample_project 100)\<lparr>expected_end_date := 110, milestones := []\<rparr>,
          (sample_project 100)\<lparr>expected_end_date := 150, milestones := []\<rparr>] = Inr r
     \<and> total_projects r = 3
     \<and> projects_at_risk r = 2"
proof -
  let ?quiet = "(sample_project 100)\<lparr>expected_end_date := 110, milestones := []\<rparr>"
  let ?far = "(sample_project 100)\<lparr>expected_end_date := 150, milestones := []\<rparr>"
  have q: "check_project 100 ?quiet = Inr []" "is_at_risk 100 ?quiet"
    by (simp_all add: check_project_eq deadline_alerts_def deadline_loop_mem sample_project_def
        is_at_risk_def days_until_deadline_def)
  have f: "check_project 100 ?far = Inr []" "\<not> is_at_risk 100 ?far"
    by (simp_all add: check_project_eq deadline_alerts_def deadline_loop_mem sample_project_def
        is_at_risk_def days_until_deadline_def)
  show ?thesis
    using batch_check_counts [of 100 "[sample_project 100, ?quiet, ?far]"]
    by (simp add: check_sample_project q f numeral_3_eq_3 numeral_2_eq_2)
qed

section \<open>Validation and totality\<close>

lemma milestone_alerts_start_date:
  "milestone_alerts today (p\<lparr>start_date := s\<rparr>) = milestone_alerts today p"
  by (rule ext) (simp add: milestone_alerts_eq)

lemma project_alerts_start_date:
  "project_alerts today (p\<lparr>start_date := s\<rparr>) = project_alerts today p"
  by (simp add: project_alerts_eq deadline_alerts_def deadline_loop_mem
      milestone_alerts_start_date)

lemma batch_check_total: "\<exists>r. batch_check today ps = Inr r"
  by (simp add: batch_check_eq)

text \<open>
  C9. Constructing a \<open>Project\<close> whose expected end date precedes its start date fails with
  a \<open>ValueError\<close>; every other construction succeeds and stores the values given, so this
  is the only check made. Evaluation never raises: \<open>check_project\<close> returns a list of
  alerts for every project and every date, and \<open>batch_check\<close> a report for every list of
  projects. The start date has no influence on the alerts, so the order of the two dates
  never shows up as an alert.
\<close>

theorem validation_at_construction_only:
  "(expected_end_date kwargs < start_date kwargs \<longrightarrow>
      (\<exists>msg. Project_init kwargs = Inl (ValueError msg)))
   \<and> (\<not> expected_end_date kwargs < start_date kwargs \<longrightarrow> Project_init kwargs = Inr kwargs)
   \<and> (\<exists>alerts. check_project today p = Inr alerts)
   \<and> check_project today (p\<lparr>start_date := s\<rparr>) = check_project today p
   \<and> (\<exists>r. batch_check today ps = Inr r)"
proof (intro conjI)
  show "expected_end_date kwargs < start_date kwargs \<longrightarrow>
      (\<exists>msg. Project_init kwargs = Inl (ValueError msg))"
    by (simp add: Project_init_def end_must_be_after_start_def)
  show "\<not> expected_end_date kwargs < start_date kwargs \<longrightarrow> Project_init kwargs = Inr kwargs"
    by (simp add: Project_init_def end_must_be_after_start_def)
  show "\<exists>alerts. check_project today p = Inr alerts"
    by (simp add: check_project_total)
  show "check_project today (p\<lparr>start_date := s\<rparr>) = check_project today p"
    by (simp add: check_project_total project_alerts_start_date)
  show "\<exists>r. batch_check today ps = Inr r"
    by (rule batch_check_total)
qed

text \<open>
  The fixture starts on day 70. With its end moved to day 50 construction is refused, and
  evaluating that record all the same still returns alerts and a report; the fixture as it
  is constructs to itself.
\<close>

theorem validation_at_construction_only_witness:
  "expected_end_date ((sample_project 100)\<lparr>expected_end_date := 50\<rparr>)
     < start_date ((sample_project 100)\<lparr>expected_end_date := 50\<rparr>)
   \<and> (\<exists>msg. Project_init ((sample_project 100)\<lparr>expected_end_date := 50\<rparr>)
              = Inl (ValueError msg))
   \<and> \<not> expected_end_date (sample_project 100) < start_date (sample_project 100)
   \<and> Project_init (sample_project 100) = Inr (sample_project 100)
   \<and> (\<exists>alerts. check_project 100 ((sample_project 100)\<lparr>expected_end_date := 50\<rparr>)
                 = Inr alerts)
   \<and> (\<exists>r. batch_check 100 [(sample_project 100)\<lparr>expected_end_date := 50\<rparr>] = Inr r)"
proof -
  have h1: "expected_end_date ((sample_project 100)\<lparr>expected_end_date := 50\<rparr>)
     < start_date ((sample_project 100)\<lparr>expected_end_date := 50\<rparr>)"
    by (simp add: sample_project_def)
  have h2: "\<not> expected_end_date (sample_project 100) < start_date (sample_project 100)"
    by (simp add: sample_project_def)
  show ?thesis
    using h1 h2
      validation_at_construction_only [of "(sample_project 100)\<lparr>expected_end_date := 50\<rparr>"
        100 "(sample_project 100)\<lparr>expected_end_date := 50\<rparr>" 70
        "[(sample_project 100)\<lparr>expected_end_date := 50\<rparr>]"]
      validation_at_construction_only [of "sample_project 100"
        100 "sample_project 100" 70 "[]"]
    by blast
qed

section \<open>Severities form a closed set\<close>

lemma alert_shape_milestone:
  "a \<in> set (milestone_alerts today p m) \<Longrightarrow>
     (type a = ''milestone_overdue'' \<and> severity a = ''CRITICO'')
     \<or> (type a = ''milestone_approaching''
         \<and> severity a = calculate_severity (days a) ''milestone'')"
  by (auto simp: milestone_alerts_eq split: if_splits)

lemma alert_shape_deadline:
  "a \<in> set (deadline_alerts today p) \<Longrightarrow>
     type a = ''project_deadline'' \<and> severity a = calculate_severity (days a) ''project''"
  by (auto simp: deadline_alerts_def deadline_loop_mem split: if_splits)

lemma alert_shape_project:
  "a \<in> set (project_alerts today p) \<Longrightarrow>
     (type a = ''milestone_overdue'' \<and> severity a = ''CRITICO'')
     \<or> (type a = ''milestone_approaching''
         \<and> severity a = calculate_severity (days a) ''milestone'')
     \<or> (type a = ''project_deadline''
         \<and> severity a = calculate_severity (days a) ''project'')"
  by (auto simp: project_alerts_eq dest: alert_shape_milestone alert_shape_deadline)

lemma range_calculate_severity:
  "range (\<lambda>d. calculate_severity d t) = {''CRITICO'', ''ALTO'', ''MEDIO'', ''BAIXO''}"
proof
  show "range (\<lambda>d. calculate_severity d t) \<subseteq> {''CRITICO'', ''ALTO'', ''MEDIO'', ''BAIXO''}"
    using calculate_severity_range by blast
  have "calculate_severity 7 t = ''CRITICO''" "calculate_severity 15 t = ''ALTO''"
    "calculate_severity 30 t = ''MEDIO''" "calculate_severity 31 t = ''BAIXO''"
    by (simp_all add: calculate_severity_bands)
  then show "{''CRITICO'', ''ALTO'', ''MEDIO'', ''BAIXO''} \<subseteq> range (\<lambda>d. calculate_severity d t)"
    by (metis empty_subsetI insert_subset rangeI)
qed

text \<open>
  C10. Every alert \<open>check_project\<close> returns has a severity among \<open>CRITICO\<close>, \<open>ALTO\<close>,
  \<open>MEDIO\<close>, \<open>BAIXO\<close>: a \<open>milestone_overdue\<close> alert is \<open>CRITICO\<close>, and the two other kinds
  take the value of the banding function at their day count, whose range is exactly these
  four values. Hence in \<open>batch_check\<close> every alert finds the bucket of its severity, and
  \<open>batch_check\<close> never fails with a \<open>KeyError\<close>.
\<close>

theorem severity_closed_set:
  "(\<exists>alerts. check_project today p = Inr alerts
      \<and> (\<forall>a \<in> set alerts.
            severity a \<in> {''CRITICO'', ''ALTO'', ''MEDIO'', ''BAIXO''}
          \<and> ((type a = ''milestone_overdue'' \<and> severity a = ''CRITICO'')
             \<or> (type a = ''milestone_approaching''
                 \<and> severity a = calculate_severity (days a) ''milestone'')
             \<or> (type a = ''project_deadline''
                 \<and> severity a = calculate_severity (days a) ''project''))))
   \<and> range (\<lambda>d. calculate_severity d t) = {''CRITICO'', ''ALTO'', ''MEDIO'', ''BAIXO''}
   \<and> (\<exists>r. batch_check today ps = Inr r
         \<and> (\<forall>a \<in> set (all_alerts r).
               severity a \<in> {''CRITICO'', ''ALTO'', ''MEDIO'', ''BAIXO''}
             \<and> (\<exists>bucket. alerts_by_severity r (severity a) = Some bucket)))
   \<and> (\<forall>k. batch_check today ps \<noteq> Inl (KeyError k))"
proof (intro conjI)
  show "\<exists>alerts. check_project today p = Inr alerts
      \<and> (\<forall>a \<in> set alerts.
            severity a \<in> {''CRITICO'', ''ALTO'', ''MEDIO'', ''BAIXO''}
          \<and> ((type a = ''milestone_overdue'' \<and> severity a = ''CRITICO'')
             \<or> (type a = ''milestone_approaching''
                 \<and> severity a = calculate_severity (days a) ''milestone'')
             \<or> (type a = ''project_deadline''
                 \<and> severity a = calculate_severity (days a) ''project'')))"
    using severity_project_alerts [of _ today p] alert_shape_project [of _ today p]
    by (intro exI [of _ "project_alerts today p"]) (simp add: check_project_total)
  show "range (\<lambda>d. calculate_severity d t) = {''CRITICO'', ''ALTO'', ''MEDIO'', ''BAIXO''}"
    by (rule range_calculate_severity)
  have "\<forall>a \<in> set (concat (map (project_alerts today) ps)).
          severity a \<in> {''CRITICO'', ''ALTO'', ''MEDIO'', ''BAIXO''}"
    by (auto dest: severity_project_alerts)
  then show "\<exists>r. batch_check today ps = Inr r
         \<and> (\<forall>a \<in> set (all_alerts r).
               severity a \<in> {''CRITICO'', ''ALTO'', ''MEDIO'', ''BAIXO''}
             \<and> (\<exists>bucket. alerts_by_severity r (severity a) = Some bucket))"
    by (simp add: batch_check_eq)
  show "\<forall>k. batch_check today ps \<noteq> Inl (KeyError k)"
    by (simp add: batch_check_eq)
qed

text \<open>The first alert of the fixture, on its own and inside the report.\<close>

theorem severity_closed_set_witness:
  "\<exists>a rest. check_project 100 (sample_project 100) = Inr (a # rest)
     \<and> type a = ''milestone_overdue''
     \<and> severity a = ''CRITICO''
     \<and> severity a \<in> {''CRITICO'', ''ALTO'', ''MEDIO'', ''BAIXO''}
     \<and> (\<exists>r. batch_check 100 [sample_project 100] = Inr r
           \<and> a \<in> set (all_alerts r)
           \<and> (\<exists>bucket. alerts_by_severity r (severity a) = Some bucket))"
proof -
  let ?a = "\<lparr>type = ''milestone_overdue'',
             target = ''Modernizacao Sistema X > Levantamento de requisitos'',
             days = 5, severity = ''CRITICO'',
             message = Msg_milestone_overdue ''Levantamento de requisitos'' 95 5\<rparr>"
  from severity_closed_set [of 100 "sample_project 100" "''milestone''" "[sample_project 100]"]
  obtain alerts r where
    alerts: "check_project 100 (sample_project 100) = Inr alerts"
    and sev: "\<forall>a \<in> set alerts.
            severity a \<in> {''CRITICO'', ''ALTO'', ''MEDIO'', ''BAIXO''}
          \<and> ((type a = ''milestone_overdue'' \<and> severity a = ''CRITICO'')
             \<or> (type a = ''milestone_approaching''
                 \<and> severity a = calculate_severity (days a) ''milestone'')
             \<or> (type a = ''project_deadline''
                 \<and> severity a = calculate_severity (days a) ''project''))"
    and r: "batch_check 100 [sample_project 100] = Inr r"
    and buckets: "\<forall>a \<in> set (all_alerts r).
               severity a \<in> {''CRITICO'', ''ALTO'', ''MEDIO'', ''BAIXO''}
             \<and> (\<exists>bucket. alerts_by_severity r (severity a) = Some bucket)"
    by (elim exE conjE)
  from alerts obtain rest where cp: "check_project 100 (sample_project 100) = Inr (?a # rest)"
    and mem: "?a \<in> set alerts"
    by (auto simp: check_sample_project)
  from sev mem have s: "severity ?a \<in> {''CRITICO'', ''ALTO'', ''MEDIO'', ''BAIXO''}"
    by blast
  from r cp have "?a \<in> set (all_alerts r)"
    by (auto simp: batch_check_eq check_project_total)
  with buckets have "\<exists>bucket. alerts_by_severity r (severity ?a) = Some bucket"
    by blast
  with r cp s \<open>?a \<in> set (all_alerts r)\<close> show ?thesis
    by (intro exI [of _ ?a] exI [of _ rest]) simp
qed

section \<open>Concluded projects\<close>

text \<open>
  C1. The claim is that a project with status \<open>CONCLUIDO\<close> gets no alert whatever its
  milestones are. The milestone loop of \<open>check_project\<close> does not read the project's status:
  the concluded project with a pending milestone five days late gets a
  \<open>milestone_overdue\<close> alert. Without milestones, as in the test, it gets none.
\<close>

theorem done_project_still_alerts_on_milestone:
  "status (concluded_project 100) = CONCLUIDO
   \<and> check_project 100 (concluded_project 100) =
       Inr [\<lparr>type = ''milestone_overdue'',
             target = ''Projeto Concluido > Entrega final'',
             days = 5, severity = ''CRITICO'',
             message = Msg_milestone_overdue ''Entrega final'' 95 5\<rparr>]
   \<and> check_project 100 ((concluded_project 100)\<lparr>milestones := []\<rparr>) = Inr []"
  by (simp add: check_project_eq deadline_alerts_def milestone_alerts_eq concluded_project_def)

end
